theory Spec2Isabelle
  imports Main
begin

section \<open>Python values used by the dashboard\<close>

text \<open>
  Strings are lists of characters; a character stands for one code point below 256.
  A value read with \<open>request.args.get\<close> or stored as \<open>None\<close> is a \<open>string option\<close>.
  Exceptions are values: every operation that can raise returns the exception beside the
  state it leaves behind, since Python does not roll back the globals when it raises.
\<close>

datatype py_exception =
    KeyError string
  | ValueError string
  | TypeError string
  | AttributeError string
  | RequestError string

type_synonym name = "string option"

definition truthy :: "string option \<Rightarrow> bool" where
  "truthy v = (case v of None \<Rightarrow> False | Some s \<Rightarrow> s \<noteq> [])"

definition py_str :: "string option \<Rightarrow> string" where
  "py_str v = (case v of None \<Rightarrow> ''None'' | Some s \<Rightarrow> s)"

fun str_join :: "string \<Rightarrow> string list \<Rightarrow> string" where
  "str_join sep [] = []"
| "str_join sep [x] = x"
| "str_join sep (x # y # ys) = x @ sep @ str_join sep (y # ys)"

definition str_mul :: "string \<Rightarrow> bool \<Rightarrow> string" where
  "str_mul s b = (if b then s else [])"

definition quoted :: "string \<Rightarrow> string" where
  "quoted s = CHR 0x27 # s @ [CHR 0x27]"

text \<open>\<open>str.isspace\<close> and \<open>str.lower\<close> on the code points below 256.\<close>

definition py_isspace :: "char \<Rightarrow> bool" where
  "py_isspace c =
     (c \<in> set [CHR 0x09, CHR 0x0A, CHR 0x0B, CHR 0x0C, CHR 0x0D, CHR 0x1C, CHR 0x1D,
                CHR 0x1E, CHR 0x1F, CHR 0x20, CHR 0x85, CHR 0xA0])"

definition upper_chars :: "char list" where
  "upper_chars = ''ABCDEFGHIJKLMNOPQRSTUVWXYZ'' @
     [
       CHR 0xC0, CHR 0xC1, CHR 0xC2, CHR 0xC3, CHR 0xC4, CHR 0xC5, CHR 0xC6, CHR 0xC7,
       CHR 0xC8, CHR 0xC9, CHR 0xCA, CHR 0xCB, CHR 0xCC, CHR 0xCD, CHR 0xCE, CHR 0xCF,
       CHR 0xD0, CHR 0xD1, CHR 0xD2, CHR 0xD3, CHR 0xD4, CHR 0xD5, CHR 0xD6, CHR 0xD8,
       CHR 0xD9, CHR 0xDA, CHR 0xDB, CHR 0xDC, CHR 0xDD, CHR 0xDE]"

definition lower_chars :: "char list" where
  "lower_chars = ''abcdefghijklmnopqrstuvwxyz'' @
     [
       CHR 0xE0, CHR 0xE1, CHR 0xE2, CHR 0xE3, CHR 0xE4, CHR 0xE5, CHR 0xE6, CHR 0xE7,
       CHR 0xE8, CHR 0xE9, CHR 0xEA, CHR 0xEB, CHR 0xEC, CHR 0xED, CHR 0xEE, CHR 0xEF,
       CHR 0xF0, CHR 0xF1, CHR 0xF2, CHR 0xF3, CHR 0xF4, CHR 0xF5, CHR 0xF6, CHR 0xF8,
       CHR 0xF9, CHR 0xFA, CHR 0xFB, CHR 0xFC, CHR 0xFD, CHR 0xFE]"

definition lower_char :: "char \<Rightarrow> char" where
  "lower_char c = (case map_of (zip upper_chars lower_chars) c of Some l \<Rightarrow> l | None \<Rightarrow> c)"

definition lower :: "string \<Rightarrow> string" where
  "lower s = map lower_char s"

text \<open>\<open>s.split()\<close>: the maximal runs of non-whitespace characters.\<close>

fun split_ws :: "string \<Rightarrow> string \<Rightarrow> string list" where
  "split_ws w [] = (if w = [] then [] else [w])"
| "split_ws w (c # cs) =
     (if py_isspace c then (if w = [] then split_ws [] cs else w # split_ws [] cs)
      else split_ws (w @ [c]) cs)"

definition py_split :: "string \<Rightarrow> string list" where
  "py_split s = split_ws [] s"

text \<open>\<open>s.split(sep)\<close> for a separator of one character: never an empty list.\<close>

fun split_sep :: "char \<Rightarrow> string \<Rightarrow> string \<Rightarrow> string list" where
  "split_sep sep w [] = [w]"
| "split_sep sep w (c # cs) =
     (if c = sep then w # split_sep sep [] cs else split_sep sep (w @ [c]) cs)"

text \<open>\<open>sub in s\<close> on strings: \<open>sub\<close> occurs as a contiguous part of \<open>s\<close>.\<close>

fun startswith :: "string \<Rightarrow> string \<Rightarrow> bool" where
  "startswith s [] = True"
| "startswith [] (p # ps) = False"
| "startswith (c # cs) (p # ps) = (c = p \<and> startswith cs ps)"

fun str_contains :: "string \<Rightarrow> string \<Rightarrow> bool" where
  "str_contains [] sub = (sub = [])"
| "str_contains (c # cs) sub = (startswith (c # cs) sub \<or> str_contains cs sub)"

section \<open>datetime: strptime with the format %H:%M, subtraction, timedelta\<close>

text \<open>
  A \<open>datetime\<close> is its proleptic Gregorian ordinal (what \<open>toordinal\<close> returns) and its
  time of day. A \<open>timedelta\<close> is kept normalised by its constructor:
  \<open>0 \<le> seconds < 86400\<close> and \<open>0 \<le> microseconds < 1000000\<close>, the sign carried by the days.
\<close>

record datetime =
  ordinal :: int
  hour :: int
  minute :: int
  second :: int
  microsecond :: int

record timedelta =
  days :: int
  seconds :: int
  microseconds :: int

definition timedelta_new :: "int \<Rightarrow> int \<Rightarrow> int \<Rightarrow> timedelta" where
  "timedelta_new d s us =
     (let s1 = s + us div 1000000
      in \<lparr>days = d + s1 div 86400, seconds = s1 mod 86400, microseconds = us mod 1000000\<rparr>)"

definition datetime_sub :: "datetime \<Rightarrow> datetime \<Rightarrow> timedelta" where
  "datetime_sub a b =
     (let secs1 = second a + minute a * 60 + hour a * 3600;
          secs2 = second b + minute b * 60 + hour b * 3600
      in timedelta_new (ordinal a - ordinal b) (secs1 - secs2) (microsecond a - microsecond b))"

definition is_digit :: "char \<Rightarrow> bool" where
  "is_digit c = (c \<in> set ''0123456789'')"

definition digit_val :: "char \<Rightarrow> int" where
  "digit_val c = int (of_char c) - 48"

text \<open>
  The directive \<open>%H\<close> is the pattern \<open>2[0-3]|[0-1]\d|\d\<close> and \<open>%M\<close> is \<open>[0-5]\d|\d\<close>:
  each function lists the ways its pattern matches a prefix, in the order the
  alternatives are tried, with the value read and the rest of the text.
\<close>

definition match_H :: "string \<Rightarrow> (int \<times> string) list" where
  "match_H s =
     (case s of
        a # b # r \<Rightarrow>
          (if a = CHR ''2'' \<and> b \<in> set ''0123'' then [(20 + digit_val b, r)] else []) @
          (if a \<in> set ''01'' \<and> is_digit b then [(10 * digit_val a + digit_val b, r)] else [])
      | _ \<Rightarrow> []) @
     (case s of a # r \<Rightarrow> (if is_digit a then [(digit_val a, r)] else []) | _ \<Rightarrow> [])"

definition match_M :: "string \<Rightarrow> (int \<times> string) list" where
  "match_M s =
     (case s of
        a # b # r \<Rightarrow>
          (if a \<in> set ''012345'' \<and> is_digit b then [(10 * digit_val a + digit_val b, r)] else [])
      | _ \<Rightarrow> []) @
     (case s of a # r \<Rightarrow> (if is_digit a then [(digit_val a, r)] else []) | _ \<Rightarrow> [])"

text \<open>
  The whole pattern \<open>%H:%M\<close> matched at the start of the text: the first hour alternative
  after which a colon and a minute follow, with the first minute alternative.
\<close>

fun match_HM :: "(int \<times> string) list \<Rightarrow> (int \<times> int \<times> string) option" where
  "match_HM [] = None"
| "match_HM ((h, r) # alts) =
     (case r of
        c # r2 \<Rightarrow>
          (if c = CHR '':'' then
             (case match_M r2 of (m, r3) # _ \<Rightarrow> Some (h, m, r3) | [] \<Rightarrow> match_HM alts)
           else match_HM alts)
      | [] \<Rightarrow> match_HM alts)"

text \<open>\<open>datetime.strptime(text, "%H:%M")\<close>: the first of January 1900 at that time.\<close>

definition strptime :: "string \<Rightarrow> py_exception + datetime" where
  "strptime data_string =
     (case match_HM (match_H data_string) of
        None \<Rightarrow> Inl (ValueError ''time data does not match format'')
      | Some (h, m, rest) \<Rightarrow>
          if rest \<noteq> [] then Inl (ValueError ''unconverted data remains'')
          else Inr \<lparr>ordinal = 693596, hour = h, minute = m, second = 0, microsecond = 0\<rparr>)"

text \<open>The texts \<open>HH:MM\<close> of two digits each, for an hour and a minute.\<close>

definition digit_char :: "nat \<Rightarrow> char" where
  "digit_char d = ''0123456789'' ! d"

definition two_digits :: "nat \<Rightarrow> string" where
  "two_digits k = [digit_char (k div 10), digit_char (k mod 10)]"

section \<open>Scheduler events and update entries\<close>

datatype action = Run_covid_update | Update_news

record event =
  ev_delay :: int
  ev_priority :: int
  ev_sequence :: nat
  ev_action :: action
  ev_argument :: name

record update =
  time :: string
  repeats :: "string option"
  update :: "event option"

section \<open>update_handler.format_update\<close>

definition format_update :: "update \<Rightarrow> bool \<Rightarrow> bool \<Rightarrow> string" where
  "format_update u covid news =
     (let data = [time u];
          updated_data = [str_mul ''Covid'' covid, str_mul ''News'' news];
          updated_data = filter (\<lambda>s. s \<noteq> []) updated_data;
          data = data @ [''Updates '' @ str_join '' & '' updated_data];
          data = data @ [if truthy (repeats u) then ''Repeats'' else ''Doesn't Repeat'']
      in str_join '', '' data)"

text \<open>The description of the updated data types in the words of the specification.\<close>

definition joined_data_types :: "bool \<Rightarrow> bool \<Rightarrow> string" where
  "joined_data_types covid news =
     str_join '' & '' ((if covid then [''Covid''] else []) @ (if news then [''News''] else []))"

definition repeat_clause :: "string option \<Rightarrow> string" where
  "repeat_clause r = (if truthy r then ''Repeats'' else ''Doesn't Repeat'')"

section \<open>The scheduler (sched.scheduler) as far as the dashboard uses it\<close>

text \<open>
  The queue holds the pending events; an event keeps the delay it was entered with, and a
  sequence number taken from the scheduler's counter tells events apart. When an event
  becomes due is left open: any pending event may be the next one to run.
\<close>

record scheduler =
  queue :: "event list"
  counter :: nat

definition enter :: "int \<Rightarrow> int \<Rightarrow> action \<Rightarrow> name \<Rightarrow> scheduler \<Rightarrow> event \<times> scheduler" where
  "enter delay priority act argument sch =
     (let ev = \<lparr>ev_delay = delay, ev_priority = priority, ev_sequence = counter sch,
                ev_action = act, ev_argument = argument\<rparr>
      in (ev, \<lparr>queue = queue sch @ [ev], counter = Suc (counter sch)\<rparr>))"

text \<open>\<open>cancel\<close> removes the event from the queue and raises when it is not there.\<close>

definition cancel :: "event \<Rightarrow> scheduler \<Rightarrow> py_exception + scheduler" where
  "cancel ev sch =
     (if ev \<in> set (queue sch) then Inr (sch\<lparr>queue := remove1 ev (queue sch)\<rparr>)
      else Inl (ValueError ''list.remove(x): x not in list''))"

section \<open>The module-level state, the configuration and the outside world\<close>

datatype jval = JNull | JStr string

type_synonym raw_article = "string \<rightharpoonup> jval"

record article =
  title :: jval
  content :: string

datatype level = INFO | WARNING | CRITICAL

record state =
  covid_data :: "string \<rightharpoonup> string list"
  covid_updates :: "name \<rightharpoonup> update"
  covid_s :: scheduler
  news_articles :: "article list"
  blocked_articles :: "string list"
  news_updates :: "name \<rightharpoonup> update"
  news_s :: scheduler
  log :: "(level \<times> string) list"

text \<open>
  What \<open>read_config\<close> returns for the validated fields, the clock, and the two providers:
  \<open>get_csv\<close> gives, for an area type and an area name, either the exception of the
  request made by \<open>Cov19API(...).get_csv()\<close> or the text of the COVID table;
  \<open>requests_get\<close> gives, for a request address, either the exception of the request or
  the outcome of reading \<open>response.json()['articles']\<close>.
\<close>

record config =
  covid_nation :: string
  covid_local :: string
  covid_update_interval_seconds :: int
  news_API_key :: string
  news_country_code :: string
  news_update_interval_seconds :: int
  news_search_terms :: string

record env =
  conf :: config
  now :: datetime
  get_csv :: "string \<Rightarrow> string \<Rightarrow> py_exception + string"
  requests_get :: "string \<Rightarrow> py_exception + (py_exception + raw_article list)"

definition logging :: "level \<Rightarrow> string \<Rightarrow> state \<Rightarrow> state" where
  "logging lvl msg s = s\<lparr>log := log s @ [(lvl, msg)]\<rparr>"

definition initial_state :: state where
  "initial_state =
     \<lparr>covid_data = Map.empty, covid_updates = Map.empty,
      covid_s = \<lparr>queue = [], counter = 0\<rparr>,
      news_articles = [], blocked_articles = [], news_updates = Map.empty,
      news_s = \<lparr>queue = [], counter = 0\<rparr>, log = []\<rparr>"

text \<open>\<open>registry[name]["update"] = event\<close> on an entry that exists.\<close>

definition set_update :: "event \<Rightarrow> name \<Rightarrow> (name \<rightharpoonup> update) \<Rightarrow> (name \<rightharpoonup> update)" where
  "set_update ev n reg =
     (case reg n of None \<Rightarrow> reg | Some u \<Rightarrow> reg(n \<mapsto> u\<lparr>update := Some ev\<rparr>))"

text \<open>The seconds of \<open>(schedule_time - current_time)\<close>, shared by both create functions.\<close>

definition delay_seconds :: "datetime \<Rightarrow> datetime \<Rightarrow> int" where
  "delay_seconds schedule_time current_time = seconds (datetime_sub schedule_time current_time)"

section \<open>covid_data_handler\<close>

definition covid_API_request ::
    "string \<Rightarrow> string \<Rightarrow> env \<Rightarrow> state \<Rightarrow> py_exception option \<times> state" where
  "covid_API_request location location_type e s =
     (let s1 = logging INFO (''Requesting COVID data for '' @ location @ ''...'') s
      in case get_csv e location_type location of
           Inl ex \<Rightarrow> (Some ex, s1)
         | Inr data \<Rightarrow>
             (let s2 = s1\<lparr>covid_data := (covid_data s1)
                           (location \<mapsto> butlast (split_sep (CHR 0x0A) [] data))\<rparr>
              in (None, logging INFO (''COVID data for '' @ location @ '' updated.'') s2)))"

definition schedule_covid_updates :: "int \<Rightarrow> name \<Rightarrow> state \<Rightarrow> state" where
  "schedule_covid_updates update_interval update_name s =
     (let s1 = (if covid_updates s update_name = None
                then logging WARNING ''Update not found, dummy update created.''
                       (s\<lparr>covid_updates := (covid_updates s)
                            (update_name \<mapsto> \<lparr>time = ''None'', repeats = None, update = None\<rparr>)\<rparr>)
                else s);
          (ev, sch) = enter update_interval 1 Run_covid_update update_name (covid_s s1)
      in s1\<lparr>covid_s := sch, covid_updates := set_update ev update_name (covid_updates s1)\<rparr>)"

text \<open>
  The end of \<open>run_covid_update\<close>, after the two requests: the entry of the name is
  read without a test that the name is a key.
\<close>

definition settle_covid_update ::
    "name \<Rightarrow> int \<Rightarrow> state \<Rightarrow> py_exception option \<times> state" where
  "settle_covid_update update_name interval s =
     (let s1 = logging INFO (''COVID update '' @ quoted (py_str update_name) @ '' completed.'') s
      in case covid_updates s1 update_name of
           None \<Rightarrow> (Some (KeyError (py_str update_name)), s1)
         | Some u \<Rightarrow>
             if truthy (repeats u) then
               (None, logging INFO
                  (''COVID update '' @ quoted (py_str update_name) @ '' scheduled to repeat.'')
                  (schedule_covid_updates interval update_name s1))
             else
               (None, logging INFO
                  (''COVID update '' @ quoted (py_str update_name) @ '' removed.'')
                  (s1\<lparr>covid_updates := (covid_updates s1)(update_name := None)\<rparr>)))"

definition run_covid_update :: "name \<Rightarrow> env \<Rightarrow> state \<Rightarrow> py_exception option \<times> state" where
  "run_covid_update update_name e s =
     (let nation = covid_nation (conf e); ltla = covid_local (conf e);
          interval = covid_update_interval_seconds (conf e)
      in case covid_API_request ltla ''ltla'' e s of
           (Some ex, s1) \<Rightarrow> (Some ex, s1)
         | (None, s1) \<Rightarrow>
             (case covid_API_request nation ''nation'' e s1 of
                (Some ex, s2) \<Rightarrow> (Some ex, s2)
              | (None, s2) \<Rightarrow> settle_covid_update update_name interval s2))"

definition create_covid_update ::
    "string \<Rightarrow> name \<Rightarrow> string option \<Rightarrow> env \<Rightarrow> state \<Rightarrow> py_exception option \<times> state" where
  "create_covid_update update_time update_name repeats_arg e s =
     (let s1 = s\<lparr>covid_updates := (covid_updates s)
                   (update_name \<mapsto> \<lparr>time = update_time, repeats = repeats_arg, update = None\<rparr>)\<rparr>
      in case strptime update_time of
           Inl ex \<Rightarrow> (Some ex, s1)
         | Inr schedule_time \<Rightarrow>
             (let secs = delay_seconds schedule_time (now e);
                  s2 = schedule_covid_updates secs update_name s1;
                  repeating = (if truthy repeats_arg then ''Repeating'' else ''Single'')
              in (None, logging INFO
                    (repeating @ '' COVID update '' @ quoted (py_str update_name)
                       @ '' created for '' @ update_time @ ''.'') s2)))"

section \<open>covid_news_handling\<close>

definition jstr :: "jval \<Rightarrow> string" where
  "jstr v = (case v of JNull \<Rightarrow> ''None'' | JStr t \<Rightarrow> t)"

definition getitem :: "raw_article \<Rightarrow> string \<Rightarrow> py_exception + jval" where
  "getitem d k = (case d k of None \<Rightarrow> Inl (KeyError k) | Some v \<Rightarrow> Inr v)"

text \<open>The condition of the loop in \<open>filter_articles\<close>: some search term is part of the title.\<close>

definition relevant :: "raw_article \<Rightarrow> string \<Rightarrow> py_exception + bool" where
  "relevant a search_terms =
     (case getitem a ''title'' of
        Inl ex \<Rightarrow> Inl ex
      | Inr JNull \<Rightarrow> Inl (AttributeError ''lower'')
      | Inr (JStr t) \<Rightarrow>
          Inr (list_ex (\<lambda>term. str_contains (lower t) (lower term)) (py_split search_terms)))"

fun filter_articles :: "raw_article list \<Rightarrow> string \<Rightarrow> py_exception + raw_article list" where
  "filter_articles [] search_terms = Inr []"
| "filter_articles (a # as) search_terms =
     (case relevant a search_terms of
        Inl ex \<Rightarrow> Inl ex
      | Inr keep \<Rightarrow>
          (case filter_articles as search_terms of
             Inl ex \<Rightarrow> Inl ex
           | Inr rel \<Rightarrow> Inr (if keep then a # rel else rel)))"

definition empty_article :: raw_article where
  "empty_article =
     [''title'' \<mapsto> JStr ''No relevant articles currently'', ''content'' \<mapsto> JStr []]"

definition news_API_request ::
    "string \<Rightarrow> env \<Rightarrow> state \<Rightarrow> (py_exception + raw_article list) \<times> state" where
  "news_API_request covid_terms e s =
     (let s1 = logging INFO ''Requesting recent top headlines...'' s;
          country = news_country_code (conf e); api_key = news_API_key (conf e);
          parameters = ''?country='' @ country @ ''&apiKey='' @ api_key;
          url = ''https://newsapi.org/v2/top-headlines'' @ parameters
      in case requests_get e url of
           Inl ex \<Rightarrow> (Inl ex, s1)
         | Inr response \<Rightarrow>
             if api_key = ''[API_KEY_HERE]'' then
               (Inl (ValueError ''The news API key has not been set in config.json''),
                logging CRITICAL ''The news API key has not been set in config.json'' s1)
             else
               (case response of
                  Inl ex \<Rightarrow> (Inl ex, s1)
                | Inr articles \<Rightarrow>
                    (case filter_articles articles covid_terms of
                       Inl ex \<Rightarrow> (Inl ex, s1)
                     | Inr filtered_articles \<Rightarrow>
                         (Inr (if length filtered_articles = 0 then [empty_article]
                               else filtered_articles), s1))))"

definition format_article :: "raw_article \<Rightarrow> py_exception + article" where
  "format_article a =
     (case getitem a ''title'' of
        Inl ex \<Rightarrow> Inl ex
      | Inr t \<Rightarrow>
          (case getitem a ''url'' of
             Inl ex \<Rightarrow> Inl ex
           | Inr u \<Rightarrow>
               (let url = ''<a href='' @ quoted (jstr u) @ ''>[Click Here]</a>''
                in case getitem a ''content'' of
                     Inl ex \<Rightarrow> Inl ex
                   | Inr c \<Rightarrow>
                       (case c of
                          JStr (x # xs) \<Rightarrow>
                            (let description = str_join '' '' (take 20 (py_split (x # xs)))
                             in Inr \<lparr>title = t, content = description @ ''... '' @ url\<rparr>)
                        | _ \<Rightarrow> Inr \<lparr>title = t, content = url\<rparr>))))"

definition schedule_news_updates :: "int \<Rightarrow> name \<Rightarrow> state \<Rightarrow> state" where
  "schedule_news_updates update_interval update_name s =
     (let s1 = (if news_updates s update_name = None
                then logging WARNING ''Update not found, dummy update created.''
                       (s\<lparr>news_updates := (news_updates s)
                            (update_name \<mapsto> \<lparr>time = ''None'', repeats = None, update = None\<rparr>)\<rparr>)
                else s);
          (ev, sch) = enter update_interval 1 Update_news update_name (news_s s1)
      in s1\<lparr>news_s := sch, news_updates := set_update ev update_name (news_updates s1)\<rparr>)"

text \<open>
  The first loop of \<open>update_news\<close>: an article is stored when the formatted article is
  not in the store already and its title is not blocked. An exception of
  \<open>format_article\<close> ends the loop and keeps what was stored before it.
\<close>

fun store_articles :: "raw_article list \<Rightarrow> state \<Rightarrow> py_exception option \<times> state" where
  "store_articles [] s = (None, s)"
| "store_articles (a # as) s =
     (case format_article a of
        Inl ex \<Rightarrow> (Some ex, s)
      | Inr formatted_article \<Rightarrow>
          store_articles as
            (if formatted_article \<notin> set (news_articles s)
                \<and> title formatted_article \<notin> set (map JStr (blocked_articles s))
             then (logging INFO (''Article '' @ quoted (jstr (title formatted_article)) @ '' added.'') s)
                    \<lparr>news_articles := news_articles s @ [formatted_article]\<rparr>
             else s))"

text \<open>
  The end of \<open>update_news\<close>, after the loop: a scheduled update is repeated or
  removed, an unknown name is reported.
\<close>

definition settle_news_update :: "name \<Rightarrow> int \<Rightarrow> state \<Rightarrow> state" where
  "settle_news_update update_name interval s =
     (case news_updates s update_name of
        Some u \<Rightarrow>
          (let s1 = logging INFO
                      (''News update '' @ quoted (py_str update_name) @ '' completed.'') s
           in if truthy (repeats u) then
                logging INFO
                  (''News update '' @ quoted (py_str update_name) @ '' scheduled to repeat.'')
                  (schedule_news_updates interval update_name s1)
              else
                logging INFO
                  (''News update '' @ quoted (py_str update_name) @ '' removed.'')
                  (s1\<lparr>news_updates := (news_updates s1)(update_name := None)\<rparr>))
      | None \<Rightarrow>
          if truthy update_name then
            logging WARNING (''Update '' @ quoted ''{update_name}'' @ '' does not exist.'') s
          else logging INFO ''News articles updated.'' s)"

definition update_news :: "name \<Rightarrow> env \<Rightarrow> state \<Rightarrow> py_exception option \<times> state" where
  "update_news update_name e s =
     (let search_terms = news_search_terms (conf e);
          interval = news_update_interval_seconds (conf e)
      in case news_API_request search_terms e s of
           (Inl ex, s1) \<Rightarrow> (Some ex, s1)
         | (Inr api_articles, s1) \<Rightarrow>
             (case store_articles api_articles s1 of
                (Some ex, s2) \<Rightarrow> (Some ex, s2)
              | (None, s2) \<Rightarrow> (None, settle_news_update update_name interval s2)))"

text \<open>
  The loop of \<open>block_article\<close> walks the list by position while it removes from the
  same list: after a removal at position \<open>i\<close> the next article looked at is the one at
  \<open>i + 1\<close> of the shortened list.
\<close>

function block_loop :: "string \<Rightarrow> nat \<Rightarrow> article list \<Rightarrow> article list" where
  "block_loop t i xs =
     (if i < length xs then
        (if JStr t = title (xs ! i) then block_loop t (i + 1) (take i xs @ drop (i + 1) xs)
         else block_loop t (i + 1) xs)
      else xs)"
  by pat_completeness auto
termination
  by (relation "measure (\<lambda>(t, i, xs). length xs - i)") auto

definition block_article :: "string \<Rightarrow> state \<Rightarrow> state" where
  "block_article t s =
     (let s1 = s\<lparr>blocked_articles := blocked_articles s @ [t]\<rparr>;
          s2 = s1\<lparr>news_articles := block_loop t 0 (news_articles s1)\<rparr>
      in logging INFO (''Article '' @ quoted t @ '' blocked.'') s2)"

definition create_news_update ::
    "string \<Rightarrow> name \<Rightarrow> string option \<Rightarrow> env \<Rightarrow> state \<Rightarrow> py_exception option \<times> state" where
  "create_news_update update_time update_name repeats_arg e s =
     (let s1 = s\<lparr>news_updates := (news_updates s)
                   (update_name \<mapsto> \<lparr>time = update_time, repeats = repeats_arg, update = None\<rparr>)\<rparr>
      in case strptime update_time of
           Inl ex \<Rightarrow> (Some ex, s1)
         | Inr schedule_time \<Rightarrow>
             (let secs = delay_seconds schedule_time (now e);
                  s2 = schedule_news_updates secs update_name s1;
                  repeating = (if truthy repeats_arg then ''Repeating'' else ''Single'')
              in (None, logging INFO
                    (repeating @ '' news update '' @ quoted (py_str update_name)
                       @ '' created for '' @ update_time @ ''.'') s2)))"

section \<open>update_handler.create_update and remove_update\<close>

text \<open>The parameters of the request address that \<open>create_update\<close> reads.\<close>

record request_args =
  two :: name
  covid_data_arg :: "string option"
  news_arg :: "string option"
  repeat :: "string option"

definition create_update ::
    "string \<Rightarrow> request_args \<Rightarrow> env \<Rightarrow> state \<Rightarrow> py_exception option \<times> state" where
  "create_update sched_time args e s =
     (let name = two args; update_covid = covid_data_arg args;
          update_news_arg = news_arg args; repeats_arg = repeat args
      in if covid_updates s name = None \<and> news_updates s name = None then
           (case (if truthy update_covid then create_covid_update sched_time name repeats_arg e s
                  else (None, s)) of
              (Some ex, s1) \<Rightarrow> (Some ex, s1)
            | (None, s1) \<Rightarrow>
                (case (if truthy update_news_arg
                       then create_news_update sched_time name repeats_arg e s1
                       else (None, s1)) of
                   (Some ex, s2) \<Rightarrow> (Some ex, s2)
                 | (None, s2) \<Rightarrow>
                     if \<not> truthy update_covid \<and> \<not> truthy update_news_arg
                     then (None, logging WARNING ''Empty update created, request ignored.'' s2)
                     else (None, s2)))
         else (None, logging WARNING ''Update name already exists.'' s))"

text \<open>
  One half of \<open>remove_update\<close>, for a registry and its scheduler: a name that is present
  has its event cancelled and its entry removed.
\<close>

definition remove_from ::
    "name \<Rightarrow> (name \<rightharpoonup> update) \<Rightarrow> scheduler
       \<Rightarrow> py_exception + ((name \<rightharpoonup> update) \<times> scheduler) option" where
  "remove_from name reg sch =
     (case reg name of
        None \<Rightarrow> Inr None
      | Some u \<Rightarrow>
          (case update u of
             None \<Rightarrow> Inl (KeyError ''update'')
           | Some ev \<Rightarrow>
               (case cancel ev sch of
                  Inl ex \<Rightarrow> Inl ex
                | Inr sch' \<Rightarrow> Inr (Some (reg(name := None), sch')))))"

definition remove_update :: "name \<Rightarrow> state \<Rightarrow> py_exception option \<times> state" where
  "remove_update name s =
     (case remove_from name (covid_updates s) (covid_s s) of
        Inl ex \<Rightarrow> (Some ex, s)
      | Inr rc \<Rightarrow>
          (let s1 = (case rc of
                       None \<Rightarrow> s
                     | Some (reg, sch) \<Rightarrow>
                         logging INFO (''COVID update '' @ quoted (py_str name) @ '' removed.'')
                           (s\<lparr>covid_updates := reg, covid_s := sch\<rparr>))
           in case remove_from name (news_updates s1) (news_s s1) of
                Inl ex \<Rightarrow> (Some ex, s1)
              | Inr rn \<Rightarrow>
                  (None, case rn of
                           None \<Rightarrow> s1
                         | Some (reg, sch) \<Rightarrow>
                             logging INFO (''News update '' @ quoted (py_str name) @ '' removed.'')
                               (s1\<lparr>news_updates := reg, news_s := sch\<rparr>))))"

section \<open>Running a pending event\<close>

text \<open>
  Both schedule functions hand the update name itself to \<open>enter\<close> as the argument
  sequence, and the scheduler calls \<open>action(*argument)\<close>: the positional arguments are
  the characters of the name. \<open>run_covid_update\<close> takes exactly one argument and
  \<open>update_news\<close> at most one.
\<close>

definition positional :: "name \<Rightarrow> py_exception + string list" where
  "positional argument =
     (case argument of
        None \<Rightarrow> Inl (TypeError ''argument after * must be an iterable, not NoneType'')
      | Some n \<Rightarrow> Inr (map (\<lambda>c. [c]) n))"

definition call_action :: "action \<Rightarrow> name \<Rightarrow> env \<Rightarrow> state \<Rightarrow> py_exception option \<times> state" where
  "call_action act argument e s =
     (case positional argument of
        Inl ex \<Rightarrow> (Some ex, s)
      | Inr pos \<Rightarrow>
          (case act of
             Run_covid_update \<Rightarrow>
               (case pos of
                  [a] \<Rightarrow> run_covid_update (Some a) e s
                | _ \<Rightarrow> (Some (TypeError ''run_covid_update() takes 1 positional argument''), s))
           | Update_news \<Rightarrow>
               (case pos of
                  [] \<Rightarrow> update_news None e s
                | [a] \<Rightarrow> update_news (Some a) e s
                | _ \<Rightarrow> (Some (TypeError ''update_news() takes from 0 to 1 positional arguments''), s))))"

text \<open>The scheduler takes a due event off its queue and then calls its action.\<close>

definition run_covid_event :: "event \<Rightarrow> env \<Rightarrow> state \<Rightarrow> py_exception option \<times> state" where
  "run_covid_event ev e s =
     call_action (ev_action ev) (ev_argument ev) e
       (s\<lparr>covid_s := (covid_s s)\<lparr>queue := remove1 ev (queue (covid_s s))\<rparr>\<rparr>)"

definition run_news_event :: "event \<Rightarrow> env \<Rightarrow> state \<Rightarrow> py_exception option \<times> state" where
  "run_news_event ev e s =
     call_action (ev_action ev) (ev_argument ev) e
       (s\<lparr>news_s := (news_s s)\<lparr>queue := remove1 ev (queue (news_s s))\<rparr>\<rparr>)"

text \<open>
  The delay in the words of the specification: the difference between the target time
  of day and the current time of day, taken in microseconds, in whole seconds (rounded
  down), wrapped into one day.
\<close>

definition microsecond_of_day :: "datetime \<Rightarrow> int" where
  "microsecond_of_day t = (hour t * 3600 + minute t * 60 + second t) * 1000000 + microsecond t"

definition wrapped_difference :: "datetime \<Rightarrow> datetime \<Rightarrow> int" where
  "wrapped_difference target current =
     ((microsecond_of_day target - microsecond_of_day current) div 1000000) mod 86400"

text \<open>The same for a target given as an hour and a minute, at second 0.\<close>

definition seconds_until :: "nat \<Rightarrow> nat \<Rightarrow> datetime \<Rightarrow> int" where
  "seconds_until h m current =
     (((int h * 3600 + int m * 60) * 1000000 - microsecond_of_day current) div 1000000)
       mod 86400"

section \<open>The states the dashboard can reach\<close>

text \<open>
  The dashboard starts with empty registries and an empty store. Each later state
  comes from one call: a data refresh, a news refresh, a request that creates an update
  (one that \<open>allowed\<close> admits), a request that removes an update or blocks a title, or
  a pending event run by its scheduler. The state left behind by a call that raises
  counts too, since the process goes on with it.
\<close>

inductive reachable :: "(request_args \<Rightarrow> bool) \<Rightarrow> state \<Rightarrow> bool"
  for allowed :: "request_args \<Rightarrow> bool" where
  start: "reachable allowed initial_state"
| fetch: "reachable allowed s
    \<Longrightarrow> reachable allowed (snd (covid_API_request location location_type e s))"
| refresh: "reachable allowed s \<Longrightarrow> reachable allowed (snd (update_news None e s))"
| create: "reachable allowed s \<Longrightarrow> allowed args
    \<Longrightarrow> reachable allowed (snd (create_update sched_time args e s))"
| remove: "reachable allowed s \<Longrightarrow> reachable allowed (snd (remove_update n s))"
| block: "reachable allowed s \<Longrightarrow> reachable allowed (block_article t s)"
| covid_event: "reachable allowed s \<Longrightarrow> ev \<in> set (queue (covid_s s))
    \<Longrightarrow> reachable allowed (snd (run_covid_event ev e s))"
| news_event: "reachable allowed s \<Longrightarrow> ev \<in> set (queue (news_s s))
    \<Longrightarrow> reachable allowed (snd (run_news_event ev e s))"

definition any_request :: "request_args \<Rightarrow> bool" where
  "any_request args = True"

definition one_data_type :: "request_args \<Rightarrow> bool" where
  "one_data_type args = (\<not> (truthy (covid_data_arg args) \<and> truthy (news_arg args)))"

section \<open>Example inputs\<close>

definition example_config :: config where
  "example_config =
     \<lparr>covid_nation = ''England'', covid_local = ''Exeter'',
      covid_update_interval_seconds = 86400, news_API_key = ''k'',
      news_country_code = ''gb'', news_update_interval_seconds = 600,
      news_search_terms = ''Covid COVID-19 coronavirus''\<rparr>"

definition example_now :: datetime where
  "example_now = \<lparr>ordinal = 738000, hour = 2, minute = 0, second = 0, microsecond = 500000\<rparr>"

definition example_articles :: "raw_article list" where
  "example_articles =
     [[''title'' \<mapsto> JStr ''Covid cases rise'', ''url'' \<mapsto> JStr ''u1'', ''content'' \<mapsto> JNull],
      [''title'' \<mapsto> JStr ''Covid cases rise'', ''url'' \<mapsto> JStr ''u2'', ''content'' \<mapsto> JNull]]"

definition example_env :: env where
  "example_env =
     \<lparr>conf = example_config, now = example_now,
      get_csv = (\<lambda>location_type location. Inr (''date,newCasesBySpecimenDate'' @ [CHR 0x0A])),
      requests_get = (\<lambda>url. Inr (Inr example_articles))\<rparr>"

text \<open>The same surroundings with no headline that matches, and with the key left unset.\<close>

definition quiet_env :: env where
  "quiet_env =
     example_env\<lparr>requests_get :=
       (\<lambda>url. Inr (Inr [[''title'' \<mapsto> JStr ''Weather'', ''url'' \<mapsto> JStr ''u3'',
                            ''content'' \<mapsto> JStr ''Rain'']]))\<rparr>"

definition unset_env :: env where
  "unset_env = example_env\<lparr>conf := example_config\<lparr>news_API_key := ''[API_KEY_HERE]''\<rparr>\<rparr>"

text \<open>
  A request for a news update named \<open>a\<close> that does not repeat, made in the empty
  state, and the event it leaves pending; the same request for both data types.
\<close>

definition news_request :: request_args where
  "news_request = \<lparr>two = Some ''a'', covid_data_arg = None, news_arg = Some ''news'', repeat = None\<rparr>"

definition both_request :: request_args where
  "both_request =
     \<lparr>two = Some ''a'', covid_data_arg = Some ''covid-data'', news_arg = Some ''news'',
      repeat = None\<rparr>"

definition pending_news_event :: event where
  "pending_news_event =
     \<lparr>ev_delay = 18299, ev_priority = 1, ev_sequence = 0, ev_action = Update_news,
      ev_argument = Some ''a''\<rparr>"




section \<open>Properties\<close>

subsection \<open>Evaluating the examples\<close>

lemma format_example_1:
  "format_article [''title'' \<mapsto> JStr ''Covid cases rise'', ''url'' \<mapsto> JStr ''u1'', ''content'' \<mapsto> JNull]
     = Inr \<lparr>title = JStr ''Covid cases rise'',
            content = ''<a href='' @ quoted ''u1'' @ ''>[Click Here]</a>''\<rparr>"
  by (simp add: format_article_def getitem_def jstr_def)

lemma format_example_2:
  "format_article [''title'' \<mapsto> JStr ''Covid cases rise'', ''url'' \<mapsto> JStr ''u2'', ''content'' \<mapsto> JNull]
     = Inr \<lparr>title = JStr ''Covid cases rise'',
            content = ''<a href='' @ quoted ''u2'' @ ''>[Click Here]</a>''\<rparr>"
  by (simp add: format_article_def getitem_def jstr_def)

lemma split_terms:
  "py_split ''Covid COVID-19 coronavirus'' = [''Covid'', ''COVID-19'', ''coronavirus'']"
  by (simp add: py_split_def py_isspace_def)

lemma lower_terms:
  "lower ''Covid'' = ''covid''" "lower ''COVID-19'' = ''covid-19''"
  "lower ''coronavirus'' = ''coronavirus''"
  by (simp_all add: lower_def lower_char_def upper_chars_def lower_chars_def)

lemma lower_titles:
  "lower ''Covid cases rise'' = ''covid cases rise''" "lower ''Weather'' = ''weather''"
  by (simp_all add: lower_def lower_char_def upper_chars_def lower_chars_def)

lemma filter_example:
  "filter_articles example_articles ''Covid COVID-19 coronavirus'' = Inr example_articles"
  by (simp add: example_articles_def relevant_def getitem_def split_terms lower_terms lower_titles)

lemma filter_quiet:
  "filter_articles [[''title'' \<mapsto> JStr ''Weather'', ''url'' \<mapsto> JStr ''u3'', ''content'' \<mapsto> JStr ''Rain'']]
     ''Covid COVID-19 coronavirus'' = Inr []"
  by (simp add: relevant_def getitem_def split_terms lower_terms lower_titles)

lemma fetch_example:
  "news_API_request ''Covid COVID-19 coronavirus'' example_env s
     = (Inr example_articles, logging INFO ''Requesting recent top headlines...'' s)"
proof -
  have "example_articles \<noteq> []" by (simp add: example_articles_def)
  then show ?thesis
    by (simp add: news_API_request_def example_env_def example_config_def filter_example Let_def)
qed

lemma store_example:
  "news_articles s = [] \<Longrightarrow> blocked_articles s = [] \<Longrightarrow>
   fst (store_articles example_articles s) = None
   \<and> news_articles (snd (store_articles example_articles s))
       = [\<lparr>title = JStr ''Covid cases rise'', content = ''<a href='' @ quoted ''u1'' @ ''>[Click Here]</a>''\<rparr>,
          \<lparr>title = JStr ''Covid cases rise'', content = ''<a href='' @ quoted ''u2'' @ ''>[Click Here]</a>''\<rparr>]
   \<and> news_updates (snd (store_articles example_articles s)) = news_updates s"
  by (simp add: example_articles_def format_example_1 format_example_2 logging_def quoted_def)

lemma store_articles_sentinel:
  "store_articles [empty_article] s = (Some (KeyError ''url''), s)"
  by (simp add: format_article_def getitem_def empty_article_def)

lemma empty_article_fields:
  "empty_article ''title'' = Some (JStr ''No relevant articles currently'')"
  "empty_article ''content'' = Some (JStr [])"
  "dom empty_article = {''title'', ''content''}"
  by (auto simp add: empty_article_def)


subsection \<open>What each function leaves unchanged\<close>

declare block_loop.simps [simp del]

lemma news_API_request_frame:
  "news_articles (snd (news_API_request t e s)) = news_articles s"
  "blocked_articles (snd (news_API_request t e s)) = blocked_articles s"
  "news_updates (snd (news_API_request t e s)) = news_updates s"
  "news_s (snd (news_API_request t e s)) = news_s s"
  "covid_updates (snd (news_API_request t e s)) = covid_updates s"
  "covid_s (snd (news_API_request t e s)) = covid_s s"
  "covid_data (snd (news_API_request t e s)) = covid_data s"
  by (simp_all add: news_API_request_def Let_def logging_def split: sum.splits)

lemma store_articles_frame:
  "blocked_articles (snd (store_articles as s)) = blocked_articles s"
  "news_updates (snd (store_articles as s)) = news_updates s"
  "news_s (snd (store_articles as s)) = news_s s"
  "covid_updates (snd (store_articles as s)) = covid_updates s"
  "covid_s (snd (store_articles as s)) = covid_s s"
  "covid_data (snd (store_articles as s)) = covid_data s"
  by (induction as arbitrary: s; simp add: logging_def split: sum.splits)+

lemma store_articles_distinct:
  "distinct (news_articles s) \<Longrightarrow> distinct (news_articles (snd (store_articles as s)))"
  by (induction as arbitrary: s) (simp_all add: logging_def split: sum.splits)

lemma schedule_news_updates_frame:
  "news_articles (schedule_news_updates d n s) = news_articles s"
  "blocked_articles (schedule_news_updates d n s) = blocked_articles s"
  "covid_updates (schedule_news_updates d n s) = covid_updates s"
  "covid_s (schedule_news_updates d n s) = covid_s s"
  "covid_data (schedule_news_updates d n s) = covid_data s"
  by (simp_all add: schedule_news_updates_def enter_def Let_def logging_def)

lemma settle_news_update_frame:
  "news_articles (settle_news_update n i s) = news_articles s"
  "blocked_articles (settle_news_update n i s) = blocked_articles s"
  "covid_updates (settle_news_update n i s) = covid_updates s"
  "covid_s (settle_news_update n i s) = covid_s s"
  "covid_data (settle_news_update n i s) = covid_data s"
  by (simp_all add: settle_news_update_def schedule_news_updates_frame Let_def logging_def split: option.splits)

lemma update_news_cases [case_names fetch_failed store_failed completed]:
  obtains
    (fetch_failed) ex s1 where
      "news_API_request (news_search_terms (conf e)) e s = (Inl ex, s1)"
      "update_news n e s = (Some ex, s1)"
  | (store_failed) as s1 ex s2 where
      "news_API_request (news_search_terms (conf e)) e s = (Inr as, s1)"
      "store_articles as s1 = (Some ex, s2)"
      "update_news n e s = (Some ex, s2)"
  | (completed) as s1 s2 where
      "news_API_request (news_search_terms (conf e)) e s = (Inr as, s1)"
      "store_articles as s1 = (None, s2)"
      "update_news n e s
         = (None, settle_news_update n (news_update_interval_seconds (conf e)) s2)"
proof -
  obtain r s1 where f: "news_API_request (news_search_terms (conf e)) e s = (r, s1)"
    by (cases "news_API_request (news_search_terms (conf e)) e s")
  show thesis
  proof (cases r)
    case (Inl ex)
    with f have "update_news n e s = (Some ex, s1)" by (simp add: update_news_def)
    with f Inl show thesis using fetch_failed by simp
  next
    case (Inr as)
    obtain x s2 where st: "store_articles as s1 = (x, s2)"
      by (cases "store_articles as s1")
    show thesis
    proof (cases x)
      case None
      with f Inr st have "update_news n e s
         = (None, settle_news_update n (news_update_interval_seconds (conf e)) s2)"
        by (simp add: update_news_def)
      with f Inr st None show thesis using completed by simp
    next
      case (Some ex)
      with f Inr st have "update_news n e s = (Some ex, s2)" by (simp add: update_news_def)
      with f Inr st Some show thesis using store_failed by simp
    qed
  qed
qed

lemma update_news_distinct:
  assumes "distinct (news_articles s)"
  shows "distinct (news_articles (snd (update_news n e s)))"
proof (cases rule: update_news_cases [of e s n])
  case (fetch_failed ex s1)
  then show ?thesis using assms news_API_request_frame(1) [of "news_search_terms (conf e)" e s]
    by simp
next
  case (store_failed as s1 ex s2)
  then show ?thesis
    using assms news_API_request_frame(1) [of "news_search_terms (conf e)" e s]
      store_articles_distinct [of s1 as] by simp
next
  case (completed as s1 s2)
  then show ?thesis
    using assms news_API_request_frame(1) [of "news_search_terms (conf e)" e s]
      store_articles_distinct [of s1 as] by (simp add: settle_news_update_frame)
qed

lemma distinct_pop: "distinct xs \<Longrightarrow> distinct (take i xs @ drop (i + 1) xs)"
  by (simp add: set_take_disj_set_drop_if_distinct)

lemma block_loop_distinct: "distinct xs \<Longrightarrow> distinct (block_loop t i xs)"
proof (induction t i xs rule: block_loop.induct)
  case (1 t i xs)
  show ?case
  proof (cases "i < length xs")
    case False
    then show ?thesis using "1.prems" by (subst block_loop.simps) simp
  next
    case True
    show ?thesis
    proof (cases "JStr t = title (xs ! i)")
      case same: True
      have "distinct (block_loop t (i + 1) (take i xs @ drop (i + 1) xs))"
        using "1.IH"(1) [OF True same] distinct_pop [OF "1.prems"] by simp
      then show ?thesis using True same by (subst block_loop.simps) simp
    next
      case other: False
      have "distinct (block_loop t (i + 1) xs)"
        using "1.IH"(2) [OF True other] "1.prems" by simp
      then show ?thesis using True other by (subst block_loop.simps) simp
    qed
  qed
qed

lemma dom_set_update: "dom (set_update ev n reg) = dom reg"
  by (auto simp add: set_update_def split: option.splits)

lemma covid_API_request_frame:
  "news_articles (snd (covid_API_request l lt e s)) = news_articles s"
  "blocked_articles (snd (covid_API_request l lt e s)) = blocked_articles s"
  "news_updates (snd (covid_API_request l lt e s)) = news_updates s"
  "news_s (snd (covid_API_request l lt e s)) = news_s s"
  "covid_updates (snd (covid_API_request l lt e s)) = covid_updates s"
  "covid_s (snd (covid_API_request l lt e s)) = covid_s s"
  by (simp_all add: covid_API_request_def Let_def logging_def split: sum.splits)

lemma schedule_covid_updates_frame:
  "news_articles (schedule_covid_updates d n s) = news_articles s"
  "blocked_articles (schedule_covid_updates d n s) = blocked_articles s"
  "news_updates (schedule_covid_updates d n s) = news_updates s"
  "news_s (schedule_covid_updates d n s) = news_s s"
  "covid_data (schedule_covid_updates d n s) = covid_data s"
  by (simp_all add: schedule_covid_updates_def enter_def Let_def logging_def)

lemma dom_schedule_covid_updates:
  "dom (covid_updates (schedule_covid_updates d n s)) = insert n (dom (covid_updates s))"
  by (auto simp add: schedule_covid_updates_def enter_def Let_def logging_def dom_set_update)

lemma dom_schedule_news_updates:
  "dom (news_updates (schedule_news_updates d n s)) = insert n (dom (news_updates s))"
  by (auto simp add: schedule_news_updates_def enter_def Let_def logging_def dom_set_update)

lemma settle_covid_update_frame:
  "news_articles (snd (settle_covid_update n i s)) = news_articles s"
  "blocked_articles (snd (settle_covid_update n i s)) = blocked_articles s"
  "news_updates (snd (settle_covid_update n i s)) = news_updates s"
  "news_s (snd (settle_covid_update n i s)) = news_s s"
  by (simp_all add: settle_covid_update_def Let_def logging_def schedule_covid_updates_frame
      split: option.splits)

lemma dom_settle_covid_update:
  "dom (covid_updates (snd (settle_covid_update n i s))) \<subseteq> dom (covid_updates s)"
  by (auto simp add: settle_covid_update_def Let_def logging_def dom_schedule_covid_updates
      split: option.splits if_splits)

text \<open>The three ways \<open>run_covid_update\<close> can end.\<close>

lemma run_covid_update_cases [case_names local_failed nation_failed fetched]:
  obtains
    (local_failed) ex s1 where
      "covid_API_request (covid_local (conf e)) ''ltla'' e s = (Some ex, s1)"
      "run_covid_update n e s = (Some ex, s1)"
  | (nation_failed) s1 ex s2 where
      "covid_API_request (covid_local (conf e)) ''ltla'' e s = (None, s1)"
      "covid_API_request (covid_nation (conf e)) ''nation'' e s1 = (Some ex, s2)"
      "run_covid_update n e s = (Some ex, s2)"
  | (fetched) s1 s2 where
      "covid_API_request (covid_local (conf e)) ''ltla'' e s = (None, s1)"
      "covid_API_request (covid_nation (conf e)) ''nation'' e s1 = (None, s2)"
      "run_covid_update n e s
         = settle_covid_update n (covid_update_interval_seconds (conf e)) s2"
proof -
  obtain x s1 where f: "covid_API_request (covid_local (conf e)) ''ltla'' e s = (x, s1)"
    by (cases "covid_API_request (covid_local (conf e)) ''ltla'' e s")
  show thesis
  proof (cases x)
    case (Some ex)
    with f have "run_covid_update n e s = (Some ex, s1)"
      by (simp add: run_covid_update_def Let_def)
    with f Some show thesis using local_failed by simp
  next
    case None
    obtain y s2 where g: "covid_API_request (covid_nation (conf e)) ''nation'' e s1 = (y, s2)"
      by (cases "covid_API_request (covid_nation (conf e)) ''nation'' e s1")
    show thesis
    proof (cases y)
      case (Some ex)
      with f None g have "run_covid_update n e s = (Some ex, s2)"
        by (simp add: run_covid_update_def Let_def)
      with f None g Some show thesis using nation_failed by simp
    next
      case inner: None
      with f None g have "run_covid_update n e s
         = settle_covid_update n (covid_update_interval_seconds (conf e)) s2"
        by (simp add: run_covid_update_def Let_def)
      with f None g inner show thesis using fetched by simp
    qed
  qed
qed

lemma run_covid_update_frame:
  "news_articles (snd (run_covid_update n e s)) = news_articles s"
  "blocked_articles (snd (run_covid_update n e s)) = blocked_articles s"
  "news_updates (snd (run_covid_update n e s)) = news_updates s"
  "news_s (snd (run_covid_update n e s)) = news_s s"
proof -
  show "news_articles (snd (run_covid_update n e s)) = news_articles s"
  proof (cases rule: run_covid_update_cases [of e s n])
    case (local_failed ex s1)
    then show ?thesis
      using covid_API_request_frame(1) [of "covid_local (conf e)" "''ltla''" e s] by simp
  next
    case (nation_failed s1 ex s2)
    then show ?thesis
      using covid_API_request_frame(1) [of "covid_local (conf e)" "''ltla''" e s]
        covid_API_request_frame(1) [of "covid_nation (conf e)" "''nation''" e s1] by simp
  next
    case (fetched s1 s2)
    then show ?thesis
      using covid_API_request_frame(1) [of "covid_local (conf e)" "''ltla''" e s]
        covid_API_request_frame(1) [of "covid_nation (conf e)" "''nation''" e s1]
      by (simp add: settle_covid_update_frame)
  qed
  show "blocked_articles (snd (run_covid_update n e s)) = blocked_articles s"
  proof (cases rule: run_covid_update_cases [of e s n])
    case (local_failed ex s1)
    then show ?thesis
      using covid_API_request_frame(2) [of "covid_local (conf e)" "''ltla''" e s] by simp
  next
    case (nation_failed s1 ex s2)
    then show ?thesis
      using covid_API_request_frame(2) [of "covid_local (conf e)" "''ltla''" e s]
        covid_API_request_frame(2) [of "covid_nation (conf e)" "''nation''" e s1] by simp
  next
    case (fetched s1 s2)
    then show ?thesis
      using covid_API_request_frame(2) [of "covid_local (conf e)" "''ltla''" e s]
        covid_API_request_frame(2) [of "covid_nation (conf e)" "''nation''" e s1]
      by (simp add: settle_covid_update_frame)
  qed
  show "news_updates (snd (run_covid_update n e s)) = news_updates s"
  proof (cases rule: run_covid_update_cases [of e s n])
    case (local_failed ex s1)
    then show ?thesis
      using covid_API_request_frame(3) [of "covid_local (conf e)" "''ltla''" e s] by simp
  next
    case (nation_failed s1 ex s2)
    then show ?thesis
      using covid_API_request_frame(3) [of "covid_local (conf e)" "''ltla''" e s]
        covid_API_request_frame(3) [of "covid_nation (conf e)" "''nation''" e s1] by simp
  next
    case (fetched s1 s2)
    then show ?thesis
      using covid_API_request_frame(3) [of "covid_local (conf e)" "''ltla''" e s]
        covid_API_request_frame(3) [of "covid_nation (conf e)" "''nation''" e s1]
      by (simp add: settle_covid_update_frame)
  qed
  show "news_s (snd (run_covid_update n e s)) = news_s s"
  proof (cases rule: run_covid_update_cases [of e s n])
    case (local_failed ex s1)
    then show ?thesis
      using covid_API_request_frame(4) [of "covid_local (conf e)" "''ltla''" e s] by simp
  next
    case (nation_failed s1 ex s2)
    then show ?thesis
      using covid_API_request_frame(4) [of "covid_local (conf e)" "''ltla''" e s]
        covid_API_request_frame(4) [of "covid_nation (conf e)" "''nation''" e s1] by simp
  next
    case (fetched s1 s2)
    then show ?thesis
      using covid_API_request_frame(4) [of "covid_local (conf e)" "''ltla''" e s]
        covid_API_request_frame(4) [of "covid_nation (conf e)" "''nation''" e s1]
      by (simp add: settle_covid_update_frame)
  qed
qed

lemma dom_run_covid_update:
  "dom (covid_updates (snd (run_covid_update n e s))) \<subseteq> dom (covid_updates s)"
proof (cases rule: run_covid_update_cases [of e s n])
  case (local_failed ex s1)
  then show ?thesis
    using covid_API_request_frame(5) [of "covid_local (conf e)" "''ltla''" e s] by simp
next
  case (nation_failed s1 ex s2)
  then show ?thesis
    using covid_API_request_frame(5) [of "covid_local (conf e)" "''ltla''" e s]
      covid_API_request_frame(5) [of "covid_nation (conf e)" "''nation''" e s1] by simp
next
  case (fetched s1 s2)
  then have "covid_updates s2 = covid_updates s"
    using covid_API_request_frame(5) [of "covid_local (conf e)" "''ltla''" e s]
      covid_API_request_frame(5) [of "covid_nation (conf e)" "''nation''" e s1] by simp
  then show ?thesis
    using fetched dom_settle_covid_update [of n "covid_update_interval_seconds (conf e)" s2]
    by simp
qed

lemma create_covid_update_frame:
  "news_articles (snd (create_covid_update t n r e s)) = news_articles s"
  "blocked_articles (snd (create_covid_update t n r e s)) = blocked_articles s"
  "news_updates (snd (create_covid_update t n r e s)) = news_updates s"
  "news_s (snd (create_covid_update t n r e s)) = news_s s"
  by (simp_all add: create_covid_update_def Let_def logging_def schedule_covid_updates_frame
      split: sum.splits)

lemma dom_create_covid_update:
  "dom (covid_updates (snd (create_covid_update t n r e s))) = insert n (dom (covid_updates s))"
  by (auto simp add: create_covid_update_def Let_def logging_def dom_schedule_covid_updates
      split: sum.splits)

lemma create_news_update_frame:
  "news_articles (snd (create_news_update t n r e s)) = news_articles s"
  "blocked_articles (snd (create_news_update t n r e s)) = blocked_articles s"
  "covid_updates (snd (create_news_update t n r e s)) = covid_updates s"
  "covid_s (snd (create_news_update t n r e s)) = covid_s s"
  by (simp_all add: create_news_update_def Let_def logging_def schedule_news_updates_frame
      split: sum.splits)

lemma dom_create_news_update:
  "dom (news_updates (snd (create_news_update t n r e s))) = insert n (dom (news_updates s))"
  by (auto simp add: create_news_update_def Let_def logging_def dom_schedule_news_updates
      split: sum.splits)

lemma dom_settle_news_update:
  "dom (news_updates (settle_news_update n i s)) \<subseteq> dom (news_updates s)"
  by (auto simp add: settle_news_update_def Let_def logging_def dom_schedule_news_updates
      split: option.splits if_splits)

lemma update_news_covid_updates:
  "covid_updates (snd (update_news n e s)) = covid_updates s"
proof (cases rule: update_news_cases [of e s n])
  case (fetch_failed ex s1)
  then show ?thesis using news_API_request_frame(5) [of "news_search_terms (conf e)" e s] by simp
next
  case (store_failed as s1 ex s2)
  then show ?thesis
    using news_API_request_frame(5) [of "news_search_terms (conf e)" e s]
      store_articles_frame(4) [of as s1] by simp
next
  case (completed as s1 s2)
  then show ?thesis
    using news_API_request_frame(5) [of "news_search_terms (conf e)" e s]
      store_articles_frame(4) [of as s1] by (simp add: settle_news_update_frame)
qed

lemma dom_update_news:
  "dom (news_updates (snd (update_news n e s))) \<subseteq> dom (news_updates s)"
proof (cases rule: update_news_cases [of e s n])
  case (fetch_failed ex s1)
  then show ?thesis using news_API_request_frame(3) [of "news_search_terms (conf e)" e s] by simp
next
  case (store_failed as s1 ex s2)
  then show ?thesis
    using news_API_request_frame(3) [of "news_search_terms (conf e)" e s]
      store_articles_frame(2) [of as s1] by simp
next
  case (completed as s1 s2)
  then have "news_updates s2 = news_updates s"
    using news_API_request_frame(3) [of "news_search_terms (conf e)" e s]
      store_articles_frame(2) [of as s1] by simp
  then show ?thesis
    using completed dom_settle_news_update [of n "news_update_interval_seconds (conf e)" s2]
    by simp
qed

lemma create_covid_update_result:
  assumes "create_covid_update t n r e s = (x, s')"
  shows "dom (covid_updates s') = insert n (dom (covid_updates s))"
    and "news_updates s' = news_updates s" and "news_articles s' = news_articles s"
  using assms dom_create_covid_update [of t n r e s] create_covid_update_frame [of t n r e s]
  by simp_all

lemma create_news_update_result:
  assumes "create_news_update t n r e s = (x, s')"
  shows "dom (news_updates s') = insert n (dom (news_updates s))"
    and "covid_updates s' = covid_updates s" and "news_articles s' = news_articles s"
  using assms dom_create_news_update [of t n r e s] create_news_update_frame [of t n r e s]
  by simp_all

lemma create_update_news_articles:
  "news_articles (snd (create_update t args e s)) = news_articles s"
  by (simp add: create_update_def Let_def logging_def case_prod_beta
      create_covid_update_frame create_news_update_frame split: option.splits)

lemma create_update_disjoint:
  assumes "one_data_type args"
    and "dom (covid_updates s) \<inter> dom (news_updates s) = {}"
  shows "dom (covid_updates (snd (create_update t args e s)))
           \<inter> dom (news_updates (snd (create_update t args e s))) = {}"
proof (cases "covid_updates s (two args) = None \<and> news_updates s (two args) = None")
  case False
  then show ?thesis using assms(2) by (auto simp add: create_update_def Let_def logging_def)
next
  case new: True
  show ?thesis
  proof (cases "truthy (covid_data_arg args)")
    case True
    then have nn: "\<not> truthy (news_arg args)" using assms(1) by (simp add: one_data_type_def)
    obtain x s1 where c: "create_covid_update t (two args) (repeat args) e s = (x, s1)"
      by (cases "create_covid_update t (two args) (repeat args) e s")
    have "snd (create_update t args e s) = s1"
      using new True nn c by (simp add: create_update_def Let_def split: option.splits)
    then show ?thesis
      using create_covid_update_result(1,2) [OF c] assms(2) new by auto
  next
    case nc: False
    show ?thesis
    proof (cases "truthy (news_arg args)")
      case True
      obtain x s1 where c: "create_news_update t (two args) (repeat args) e s = (x, s1)"
        by (cases "create_news_update t (two args) (repeat args) e s")
      have "snd (create_update t args e s) = s1"
        using new True nc c by (simp add: create_update_def Let_def split: option.splits)
      then show ?thesis
        using create_news_update_result(1,2) [OF c] assms(2) new by auto
    next
      case False
      then show ?thesis
        using new nc assms(2) by (simp add: create_update_def Let_def logging_def)
    qed
  qed
qed

lemma remove_from_result:
  "remove_from n reg sch = Inr (Some (reg', sch')) \<Longrightarrow> reg' = reg(n := None)"
  by (auto simp add: remove_from_def split: option.splits sum.splits)

lemma remove_update_frame:
  "news_articles (snd (remove_update n s)) = news_articles s"
  by (auto simp add: remove_update_def Let_def logging_def split: sum.splits option.splits)

lemma dom_remove_update:
  "dom (covid_updates (snd (remove_update n s))) \<subseteq> dom (covid_updates s)"
  "dom (news_updates (snd (remove_update n s))) \<subseteq> dom (news_updates s)"
  by (auto simp add: remove_update_def Let_def logging_def dest!: remove_from_result
      split: sum.splits option.splits if_splits)


lemma block_article_frame:
  "covid_updates (block_article t s) = covid_updates s"
  "news_updates (block_article t s) = news_updates s"
  by (simp_all add: block_article_def Let_def logging_def)

lemma block_article_distinct:
  "distinct (news_articles s) \<Longrightarrow> distinct (news_articles (block_article t s))"
  by (simp add: block_article_def Let_def logging_def block_loop_distinct)

lemma call_action_distinct:
  "distinct (news_articles s) \<Longrightarrow> distinct (news_articles (snd (call_action act arg e s)))"
  by (simp add: call_action_def run_covid_update_frame update_news_distinct
      split: sum.splits action.splits list.splits)

lemma dom_call_action:
  "dom (covid_updates (snd (call_action act arg e s))) \<subseteq> dom (covid_updates s)"
  "dom (news_updates (snd (call_action act arg e s))) \<subseteq> dom (news_updates s)"
  by (simp_all add: call_action_def run_covid_update_frame dom_run_covid_update
      update_news_covid_updates dom_update_news split: sum.splits action.splits list.splits)

lemma run_event_distinct:
  "distinct (news_articles s) \<Longrightarrow> distinct (news_articles (snd (run_covid_event ev e s)))"
  "distinct (news_articles s) \<Longrightarrow> distinct (news_articles (snd (run_news_event ev e s)))"
  by (simp_all add: run_covid_event_def run_news_event_def call_action_distinct)

lemma dom_run_covid_event:
  "dom (covid_updates (snd (run_covid_event ev e s))) \<subseteq> dom (covid_updates s)"
  "dom (news_updates (snd (run_covid_event ev e s))) \<subseteq> dom (news_updates s)"
  using dom_call_action [of "ev_action ev" "ev_argument ev" e
      "s\<lparr>covid_s := (covid_s s)\<lparr>queue := remove1 ev (queue (covid_s s))\<rparr>\<rparr>"]
  by (simp_all add: run_covid_event_def)

lemma dom_run_news_event:
  "dom (covid_updates (snd (run_news_event ev e s))) \<subseteq> dom (covid_updates s)"
  "dom (news_updates (snd (run_news_event ev e s))) \<subseteq> dom (news_updates s)"
  using dom_call_action [of "ev_action ev" "ev_argument ev" e
      "s\<lparr>news_s := (news_s s)\<lparr>queue := remove1 ev (queue (news_s s))\<rparr>\<rparr>"]
  by (simp_all add: run_news_event_def)

lemma strptime_example:
  "strptime ''07:05'' = Inr \<lparr>ordinal = 693596, hour = 7, minute = 5, second = 0, microsecond = 0\<rparr>"
  by (simp add: strptime_def match_H_def match_M_def is_digit_def digit_val_def)

lemma delay_example:
  "delay_seconds \<lparr>ordinal = 693596, hour = 7, minute = 5, second = 0, microsecond = 0\<rparr>
     (now example_env) = 18299"
  by (simp add: delay_seconds_def datetime_sub_def timedelta_new_def example_env_def
      example_now_def Let_def)

lemma news_request_state:
  "create_update ''07:05'' news_request example_env initial_state
     = (None,
        initial_state
          \<lparr>news_updates := [Some ''a'' \<mapsto> \<lparr>time = ''07:05'', repeats = None,
                                          update = Some pending_news_event\<rparr>],
           news_s := \<lparr>queue = [pending_news_event], counter = 1\<rparr>,
           log := [(INFO, ''Single news update '' @ quoted ''a'' @ '' created for 07:05.'')]\<rparr>)"
  by (simp add: create_update_def news_request_def create_news_update_def strptime_example
      delay_example schedule_news_updates_def enter_def set_update_def logging_def Let_def
      truthy_def py_str_def initial_state_def pending_news_event_def)

lemma both_request_state:
  "covid_updates (snd (create_update ''07:05'' both_request example_env initial_state)) (Some ''a'') \<noteq> None
   \<and> news_updates (snd (create_update ''07:05'' both_request example_env initial_state)) (Some ''a'') \<noteq> None"
  by (simp add: create_update_def both_request_def create_news_update_def create_covid_update_def strptime_example
      delay_example schedule_news_updates_def schedule_covid_updates_def enter_def set_update_def logging_def Let_def
      truthy_def py_str_def initial_state_def)


lemma update_example:
  assumes "news_articles s = []" and "blocked_articles s = []"
  shows "fst (update_news n example_env s) = None
   \<and> news_articles (snd (update_news n example_env s))
       = [\<lparr>title = JStr ''Covid cases rise'', content = ''<a href='' @ quoted ''u1'' @ ''>[Click Here]</a>''\<rparr>,
          \<lparr>title = JStr ''Covid cases rise'', content = ''<a href='' @ quoted ''u2'' @ ''>[Click Here]</a>''\<rparr>]"
proof -
  let ?s1 = "logging INFO ''Requesting recent top headlines...'' s"
  have st: "fst (store_articles example_articles ?s1) = None
     \<and> news_articles (snd (store_articles example_articles ?s1))
       = [\<lparr>title = JStr ''Covid cases rise'', content = ''<a href='' @ quoted ''u1'' @ ''>[Click Here]</a>''\<rparr>,
          \<lparr>title = JStr ''Covid cases rise'', content = ''<a href='' @ quoted ''u2'' @ ''>[Click Here]</a>''\<rparr>]"
    using store_example [of ?s1] assms by (simp add: logging_def)
  obtain s2 where s2: "store_articles example_articles ?s1 = (None, s2)"
    using st by (cases "store_articles example_articles ?s1") auto
  have terms: "news_search_terms (conf example_env) = ''Covid COVID-19 coronavirus''"
    by (simp add: example_env_def example_config_def)
  have "update_news n example_env s
          = (None, settle_news_update n (news_update_interval_seconds (conf example_env)) s2)"
    by (simp add: update_news_def terms fetch_example s2 Let_def)
  then show ?thesis using st s2 by (simp add: settle_news_update_frame)
qed

lemma update_initial:
  "fst (update_news None example_env initial_state) = None
   \<and> news_articles (snd (update_news None example_env initial_state))
       = [\<lparr>title = JStr ''Covid cases rise'', content = ''<a href='' @ quoted ''u1'' @ ''>[Click Here]</a>''\<rparr>,
          \<lparr>title = JStr ''Covid cases rise'', content = ''<a href='' @ quoted ''u2'' @ ''>[Click Here]</a>''\<rparr>]"
  by (rule update_example) (simp_all add: initial_state_def)


subsection \<open>The text of an update\<close>

text \<open>
  C10: for every update record and every pair of flags, \<open>format_update\<close> returns
  the time, then \<open>Updates\<close> with the data types of the true flags joined by an ampersand
  (\<open>Covid\<close>, \<open>News\<close> or \<open>Covid & News\<close>), then \<open>Repeats\<close> when the repeats value is truthy
  and \<open>Doesn't Repeat\<close> otherwise; the two documented examples evaluate as documented.
\<close>

theorem format_update_spec:
  "format_update u covid news
     = time u @ '', Updates '' @ joined_data_types covid news @ '', '' @ repeat_clause (repeats u)
   \<and> joined_data_types True False = ''Covid''
   \<and> joined_data_types False True = ''News''
   \<and> joined_data_types True True = ''Covid & News''
   \<and> repeat_clause (Some ''repeat'') = ''Repeats''
   \<and> repeat_clause None = ''Doesn't Repeat''
   \<and> format_update \<lparr>time = ''01:23'', repeats = Some ''repeat'', update = None\<rparr> True True
        = ''01:23, Updates Covid & News, Repeats''
   \<and> format_update \<lparr>time = ''12:34'', repeats = None, update = None\<rparr> False True
        = ''12:34, Updates News, Doesn't Repeat''"
  by (simp add: format_update_def joined_data_types_def repeat_clause_def str_mul_def truthy_def)

subsection \<open>The delay of a new update\<close>

text \<open>Every text \<open>HH:MM\<close> with an hour below 24 and a minute below 60 is accepted.\<close>

lemma below_10: "(d::nat) < 10 \<Longrightarrow> d \<in> {0, 1, 2, 3, 4, 5, 6, 7, 8, 9}"
  by auto

lemma digit_char_facts:
  assumes "d < 10"
  shows "is_digit (digit_char d)" and "digit_val (digit_char d) = int d"
    and "digit_char d = CHR ''0'' \<longleftrightarrow> d = 0" and "digit_char d = CHR ''1'' \<longleftrightarrow> d = 1"
    and "digit_char d = CHR ''2'' \<longleftrightarrow> d = 2" and "digit_char d = CHR ''3'' \<longleftrightarrow> d = 3"
    and "digit_char d = CHR ''4'' \<longleftrightarrow> d = 4" and "digit_char d = CHR ''5'' \<longleftrightarrow> d = 5"
    and "digit_char d \<noteq> CHR '':''"
  using below_10 [OF assms]
  by (auto simp add: digit_char_def is_digit_def digit_val_def)

lemma match_M_valid:
  assumes "m < 60"
  shows "match_M (two_digits m) = [(int m, []), (int (m div 10), [digit_char (m mod 10)])]"
proof -
  have a: "m div 10 < 6" and b: "m mod 10 < 10" using assms by auto
  have a10: "m div 10 < 10" using a by simp
  have "m div 10 \<in> {0,1,2,3,4,5}" using a by auto
  then have in5: "digit_char (m div 10) \<in> set ''012345''"
    by (auto simp add: digit_char_def)
  have "10 * int (m div 10) + int (m mod 10) = int m"
    by (simp add: zdiv_int zmod_int)
  then show ?thesis
    using in5 digit_char_facts(1,2) [OF a10] digit_char_facts(1,2) [OF b]
    by (simp add: match_M_def two_digits_def)
qed

lemma match_H_valid:
  assumes "h < 24"
  shows "\<exists>alts. match_H (two_digits h @ r) = (int h, r) # alts"
proof -
  have a: "h div 10 < 3" and b: "h mod 10 < 10" using assms by auto
  have a10: "h div 10 < 10" using a by simp
  have v: "10 * int (h div 10) + int (h mod 10) = int h"
    by (simp add: zdiv_int zmod_int)
  consider "h div 10 = 2" | "h div 10 = 0 \<or> h div 10 = 1" using a by linarith
  then show ?thesis
  proof cases
    case 1
    then have "h mod 10 < 4" using assms by presburger
    then have "h mod 10 \<in> {0,1,2,3}" by auto
    then have in3: "digit_char (h mod 10) \<in> set ''0123''" by (auto simp add: digit_char_def)
    have d2: "digit_char 2 = CHR ''2''" by (simp add: digit_char_def)
    have "20 + int (h mod 10) = int h" using v 1 by simp
    then show ?thesis
      using 1 in3 digit_char_facts(2) [OF b]
      by (simp add: match_H_def two_digits_def d2)
  next
    case 2
    then have in1: "digit_char (h div 10) \<in> set ''01''" by (auto simp add: digit_char_def)
    have not2: "digit_char (h div 10) \<noteq> CHR ''2''" using 2 by (auto simp add: digit_char_def)
    show ?thesis
      using in1 not2 v digit_char_facts(1,2) [OF a10] digit_char_facts(1,2) [OF b]
      by (simp add: match_H_def two_digits_def)
  qed
qed

lemma strptime_valid:
  assumes "h < 24" and "m < 60"
  shows "strptime (two_digits h @ '':'' @ two_digits m)
           = Inr \<lparr>ordinal = 693596, hour = int h, minute = int m, second = 0, microsecond = 0\<rparr>"
proof -
  obtain alts where H: "match_H (two_digits h @ CHR '':'' # two_digits m)
                          = (int h, CHR '':'' # two_digits m) # alts"
    using match_H_valid [OF assms(1)] by blast
  show ?thesis
    by (simp add: strptime_def H match_M_valid [OF assms(2)])
qed

lemma delay_seconds_wrapped: "delay_seconds a b = wrapped_difference a b"
proof -
  have "((second a + minute a * 60 + hour a * 3600) - (second b + minute b * 60 + hour b * 3600))
          + (microsecond a - microsecond b) div 1000000
        = (microsecond_of_day a - microsecond_of_day b) div 1000000"
    unfolding microsecond_of_day_def by (simp add: algebra_simps)
  then show ?thesis
    by (simp add: delay_seconds_def datetime_sub_def timedelta_new_def wrapped_difference_def Let_def)
qed

lemma create_update_delay_parsed:
  assumes "strptime update_time = Inr target"
  shows "fst (create_covid_update update_time n r e s) = None
    \<and> queue (covid_s (snd (create_covid_update update_time n r e s)))
        = queue (covid_s s) @
          [\<lparr>ev_delay = wrapped_difference target (now e), ev_priority = 1,
            ev_sequence = counter (covid_s s), ev_action = Run_covid_update, ev_argument = n\<rparr>]
    \<and> fst (create_news_update update_time n r e s) = None
    \<and> queue (news_s (snd (create_news_update update_time n r e s)))
        = queue (news_s s) @
          [\<lparr>ev_delay = wrapped_difference target (now e), ev_priority = 1,
            ev_sequence = counter (news_s s), ev_action = Update_news, ev_argument = n\<rparr>]"
  using assms
  by (simp add: create_covid_update_def create_news_update_def schedule_covid_updates_def
      schedule_news_updates_def enter_def Let_def logging_def delay_seconds_wrapped)

lemma wrapped_difference_seconds_until:
  "wrapped_difference
     \<lparr>ordinal = d, hour = int h, minute = int m, second = 0, microsecond = 0\<rparr> current
   = seconds_until h m current"
  by (simp add: wrapped_difference_def seconds_until_def microsecond_of_day_def)

text \<open>
  C5: for every hour below 24, every minute below 60 and every current time, given the
  text \<open>HH:MM\<close> of that hour and minute, \<open>create_covid_update\<close> and
  \<open>create_news_update\<close> return normally and enter exactly one event, whose delay is the
  difference between that time of day and the current time of day in whole seconds
  wrapped into one day; that delay is at least 0 and below 86400.
\<close>

theorem create_update_delay:
  assumes "h < 24" and "m < 60"
  shows "0 \<le> seconds_until h m (now e) \<and> seconds_until h m (now e) < 86400
    \<and> fst (create_covid_update (two_digits h @ '':'' @ two_digits m) n r e s) = None
    \<and> queue (covid_s (snd (create_covid_update (two_digits h @ '':'' @ two_digits m) n r e s)))
        = queue (covid_s s) @
          [\<lparr>ev_delay = seconds_until h m (now e), ev_priority = 1,
            ev_sequence = counter (covid_s s), ev_action = Run_covid_update, ev_argument = n\<rparr>]
    \<and> fst (create_news_update (two_digits h @ '':'' @ two_digits m) n r e s) = None
    \<and> queue (news_s (snd (create_news_update (two_digits h @ '':'' @ two_digits m) n r e s)))
        = queue (news_s s) @
          [\<lparr>ev_delay = seconds_until h m (now e), ev_priority = 1,
            ev_sequence = counter (news_s s), ev_action = Update_news, ev_argument = n\<rparr>]"
proof -
  have range: "0 \<le> seconds_until h m (now e) \<and> seconds_until h m (now e) < 86400"
    by (simp add: seconds_until_def)
  show ?thesis
    using range create_update_delay_parsed [OF strptime_valid [OF assms], of n r e s]
    by (simp add: wrapped_difference_seconds_until)
qed

theorem create_update_delay_witness:
  "(7::nat) < 24 \<and> (5::nat) < 60
   \<and> two_digits 7 @ '':'' @ two_digits 5 = ''07:05''
   \<and> seconds_until 7 5 (now example_env) = 18299
   \<and> queue (covid_s (snd (create_covid_update ''07:05'' (Some ''a'') None example_env initial_state)))
       = [\<lparr>ev_delay = 18299, ev_priority = 1, ev_sequence = 0,
           ev_action = Run_covid_update, ev_argument = Some ''a''\<rparr>]
   \<and> queue (news_s (snd (create_news_update ''07:05'' (Some ''a'') None example_env initial_state)))
       = [\<lparr>ev_delay = 18299, ev_priority = 1, ev_sequence = 0,
           ev_action = Update_news, ev_argument = Some ''a''\<rparr>]"
proof -
  have h: "(7::nat) < 24" and m: "(5::nat) < 60" by simp_all
  have t: "two_digits 7 @ '':'' @ two_digits 5 = ''07:05''"
    by (simp add: two_digits_def digit_char_def)
  have d: "seconds_until 7 5 (now example_env) = 18299"
    by (simp add: seconds_until_def microsecond_of_day_def example_env_def example_now_def)
  show ?thesis
    using create_update_delay [OF h m, of example_env "Some ''a''" None initial_state]
    by (simp only: t d) (simp add: initial_state_def)
qed

subsection \<open>Creating an update under a name that exists\<close>

text \<open>
  C4: when the name of the request is a key of the COVID registry or of the news
  registry, \<open>create_update\<close> returns normally and changes nothing but the log, to which
  it appends exactly one warning: both registries and both scheduler queues stay as
  they were.
\<close>

theorem create_update_existing_name:
  assumes "covid_updates s (two args) \<noteq> None \<or> news_updates s (two args) \<noteq> None"
  shows "create_update sched_time args e s
           = (None, s\<lparr>log := log s @ [(WARNING, ''Update name already exists.'')]\<rparr>)"
  using assms by (auto simp add: create_update_def logging_def Let_def)

theorem create_update_existing_name_witness:
  "news_updates (initial_state\<lparr>news_updates := [Some ''a'' \<mapsto> \<lparr>time = ''07:05'', repeats = None, update = None\<rparr>]\<rparr>)
      (Some ''a'') \<noteq> None
   \<and> create_update ''08:00''
        \<lparr>two = Some ''a'', covid_data_arg = Some ''covid-data'', news_arg = None, repeat = None\<rparr>
        example_env
        (initial_state\<lparr>news_updates := [Some ''a'' \<mapsto> \<lparr>time = ''07:05'', repeats = None, update = None\<rparr>]\<rparr>)
      = (None,
         initial_state\<lparr>news_updates := [Some ''a'' \<mapsto> \<lparr>time = ''07:05'', repeats = None, update = None\<rparr>],
                        log := [(WARNING, ''Update name already exists.'')]\<rparr>)"
  using create_update_existing_name
          [of "initial_state\<lparr>news_updates := [Some ''a'' \<mapsto> \<lparr>time = ''07:05'', repeats = None, update = None\<rparr>]\<rparr>"
              "\<lparr>two = Some ''a'', covid_data_arg = Some ''covid-data'', news_arg = None, repeat = None\<rparr>"
              "''08:00''" example_env]
  by (simp add: initial_state_def)

subsection \<open>Names that are in no registry\<close>

text \<open>
  C3 (the code differs): \<open>run_covid_update\<close> reads the entry of its name without
  looking whether the name is a key. With an empty COVID registry the call with the
  name \<open>a\<close>, and the pending event for \<open>a\<close> run by the scheduler, end in
  \<open>KeyError\<close>; \<open>update_news\<close> with the same unknown name returns normally and ends
  with a warning in the log.
\<close>

theorem run_covid_update_unknown_name:
  "covid_updates initial_state (Some ''a'') = None
   \<and> fst (run_covid_update (Some ''a'') example_env initial_state) = Some (KeyError ''a'')
   \<and> fst (run_covid_event
            \<lparr>ev_delay = 10, ev_priority = 1, ev_sequence = 0, ev_action = Run_covid_update,
             ev_argument = Some ''a''\<rparr> example_env initial_state) = Some (KeyError ''a'')
   \<and> fst (update_news (Some ''a'') example_env initial_state) = None
   \<and> last (log (snd (update_news (Some ''a'') example_env initial_state)))
       = (WARNING, ''Update '' @ quoted ''{update_name}'' @ '' does not exist.'')"
proof -
  let ?s1 = "logging INFO ''Requesting recent top headlines...'' initial_state"
  have c: "fst (run_covid_update (Some ''a'') example_env initial_state) = Some (KeyError ''a'')"
    by (simp add: run_covid_update_def settle_covid_update_def initial_state_def Let_def
        covid_API_request_def logging_def py_str_def example_env_def)
  have ev: "fst (run_covid_event
            \<lparr>ev_delay = 10, ev_priority = 1, ev_sequence = 0, ev_action = Run_covid_update,
             ev_argument = Some ''a''\<rparr> example_env initial_state) = Some (KeyError ''a'')"
    by (simp add: run_covid_event_def call_action_def positional_def run_covid_update_def
        settle_covid_update_def initial_state_def Let_def covid_API_request_def logging_def
        py_str_def example_env_def)
  have st: "fst (store_articles example_articles ?s1) = None
            \<and> news_updates (snd (store_articles example_articles ?s1)) = Map.empty"
    using store_example [of ?s1] by (simp add: logging_def initial_state_def)
  have terms: "news_search_terms (conf example_env) = ''Covid COVID-19 coronavirus''"
    by (simp add: example_env_def example_config_def)
  have n: "fst (update_news (Some ''a'') example_env initial_state) = None
     \<and> last (log (snd (update_news (Some ''a'') example_env initial_state)))
       = (WARNING, ''Update '' @ quoted ''{update_name}'' @ '' does not exist.'')"
  proof -
    obtain s2 where s2: "store_articles example_articles ?s1 = (None, s2)"
        and reg: "news_updates s2 = Map.empty"
      using st by (cases "store_articles example_articles ?s1") auto
    have "update_news (Some ''a'') example_env initial_state
            = (None, logging WARNING (''Update '' @ quoted ''{update_name}'' @ '' does not exist.'') s2)"
      by (simp add: update_news_def settle_news_update_def terms fetch_example s2 reg Let_def
          truthy_def)
    then show ?thesis
      by (simp add: logging_def)
  qed
  show ?thesis using c ev n by (simp add: initial_state_def)
qed

subsection \<open>A fetch without a matching headline\<close>

text \<open>
  C6: when the request succeeds with a key that is set and no fetched article matches
  the search terms, \<open>news_API_request\<close> returns exactly one article, with the title
  \<open>No relevant articles currently\<close> and empty content, and the \<open>update_news\<close> that
  fetched it leaves the stored articles as they were. (The article has no \<open>url\<close>, so
  \<open>format_article\<close> raises \<open>KeyError\<close> on it and \<open>update_news\<close> ends there.)
\<close>

theorem no_match_sentinel:
  assumes key: "news_API_key (conf e) \<noteq> ''[API_KEY_HERE]''"
    and get: "requests_get e (''https://newsapi.org/v2/top-headlines'' @ ''?country=''
                @ news_country_code (conf e) @ ''&apiKey='' @ news_API_key (conf e))
              = Inr (Inr articles)"
    and none: "filter_articles articles (news_search_terms (conf e)) = Inr []"
  shows "fst (news_API_request (news_search_terms (conf e)) e s) = Inr [empty_article]
    \<and> empty_article ''title'' = Some (JStr ''No relevant articles currently'')
    \<and> empty_article ''content'' = Some (JStr [])
    \<and> dom empty_article = {''title'', ''content''}
    \<and> news_articles (snd (update_news n e s)) = news_articles s
    \<and> fst (update_news n e s) = Some (KeyError ''url'')"
proof -
  have fetch: "news_API_request (news_search_terms (conf e)) e s
                 = (Inr [empty_article], logging INFO ''Requesting recent top headlines...'' s)"
    using assms by (simp add: news_API_request_def Let_def)
  have run: "update_news n e s
               = (Some (KeyError ''url''), logging INFO ''Requesting recent top headlines...'' s)"
    by (simp add: update_news_def fetch store_articles_sentinel Let_def del: store_articles.simps)
  show ?thesis
    by (simp add: fetch run empty_article_fields logging_def)
qed

theorem no_match_sentinel_witness:
  "fst (news_API_request ''Covid COVID-19 coronavirus'' quiet_env initial_state) = Inr [empty_article]
   \<and> news_articles (snd (update_news None quiet_env initial_state)) = []
   \<and> fst (update_news None quiet_env initial_state) = Some (KeyError ''url'')"
proof -
  have key: "news_API_key (conf quiet_env) \<noteq> ''[API_KEY_HERE]''"
    by (simp add: quiet_env_def example_env_def example_config_def)
  have terms: "news_search_terms (conf quiet_env) = ''Covid COVID-19 coronavirus''"
    by (simp add: quiet_env_def example_env_def example_config_def)
  have get: "requests_get quiet_env (''https://newsapi.org/v2/top-headlines'' @ ''?country=''
                @ news_country_code (conf quiet_env) @ ''&apiKey='' @ news_API_key (conf quiet_env))
              = Inr (Inr [[''title'' \<mapsto> JStr ''Weather'', ''url'' \<mapsto> JStr ''u3'',
                           ''content'' \<mapsto> JStr ''Rain'']])"
    by (simp add: quiet_env_def)
  have none: "filter_articles [[''title'' \<mapsto> JStr ''Weather'', ''url'' \<mapsto> JStr ''u3'',
                           ''content'' \<mapsto> JStr ''Rain'']] (news_search_terms (conf quiet_env)) = Inr []"
    by (simp only: terms filter_quiet)
  show ?thesis
    using no_match_sentinel [OF key get none, of initial_state None]
    by (simp add: terms initial_state_def)
qed

subsection \<open>A fetch with the key left unset\<close>

text \<open>
  C9: when the key of the configuration is the placeholder \<open>[API_KEY_HERE]\<close>,
  \<open>update_news\<close> ends with an exception that reaches its caller (the \<open>ValueError\<close> of
  \<open>news_API_request\<close>, or the exception of the request itself when the request fails
  first), and the stored articles, the blocked titles, the COVID data, the news
  registry and the news scheduler are as before the call.
\<close>

theorem unset_key_raises:
  assumes "news_API_key (conf e) = ''[API_KEY_HERE]''"
  shows "fst (update_news n e s)
           = Some (case requests_get e (''https://newsapi.org/v2/top-headlines'' @ ''?country=''
                      @ news_country_code (conf e) @ ''&apiKey='' @ ''[API_KEY_HERE]'') of
                     Inl ex \<Rightarrow> ex
                   | Inr response \<Rightarrow> ValueError ''The news API key has not been set in config.json'')
    \<and> news_articles (snd (update_news n e s)) = news_articles s
    \<and> blocked_articles (snd (update_news n e s)) = blocked_articles s
    \<and> covid_data (snd (update_news n e s)) = covid_data s
    \<and> news_updates (snd (update_news n e s)) = news_updates s
    \<and> news_s (snd (update_news n e s)) = news_s s"
  using assms
  by (auto simp add: news_API_request_def update_news_def Let_def logging_def split: sum.splits)

theorem unset_key_raises_witness:
  "news_API_key (conf unset_env) = ''[API_KEY_HERE]''
   \<and> fst (update_news None unset_env initial_state)
       = Some (ValueError ''The news API key has not been set in config.json'')
   \<and> news_articles (snd (update_news None unset_env initial_state)) = []
   \<and> covid_data (snd (update_news None unset_env initial_state)) = Map.empty"
proof -
  have key: "news_API_key (conf unset_env) = ''[API_KEY_HERE]''"
    by (simp add: unset_env_def)
  have get: "requests_get unset_env url = Inr (Inr example_articles)" for url
    by (simp add: unset_env_def example_env_def)
  show ?thesis
    using key unset_key_raises [OF key, of None initial_state]
    by (simp add: get initial_state_def)
qed

subsection \<open>Blocking a title\<close>

text \<open>A blocked title is on the list, and no refresh stores an article under it.\<close>

lemma block_article_blocks: "t \<in> set (blocked_articles (block_article t s))"
  by (simp add: block_article_def Let_def logging_def)

lemma store_articles_blocked:
  assumes "t \<in> set (blocked_articles s)"
    and "a \<in> set (news_articles (snd (store_articles as s)))" and "title a = JStr t"
  shows "a \<in> set (news_articles s)"
  using assms
proof (induction as arbitrary: s)
  case Nil
  then show ?case by simp
next
  case (Cons r as)
  show ?case
  proof (cases "format_article r")
    case (Inl ex)
    then show ?thesis using Cons.prems by simp
  next
    case (Inr fa)
    let ?s' = "if fa \<notin> set (news_articles s) \<and> title fa \<notin> set (map JStr (blocked_articles s))
               then (logging INFO (''Article '' @ quoted (jstr (title fa)) @ '' added.'') s)
                      \<lparr>news_articles := news_articles s @ [fa]\<rparr>
               else s"
    have b: "t \<in> set (blocked_articles ?s')" using Cons.prems(1) by (simp add: logging_def)
    have "a \<in> set (news_articles (snd (store_articles as ?s')))"
      using Cons.prems(2) Inr by simp
    then have "a \<in> set (news_articles ?s')"
      using Cons.IH [OF b _ Cons.prems(3)] by blast
    then show ?thesis
      using Cons.prems(1,3) by (auto simp add: logging_def split: if_splits)
  qed
qed

lemma update_news_blocked:
  assumes "t \<in> set (blocked_articles s)"
    and "a \<in> set (news_articles (snd (update_news n e s)))" and "title a = JStr t"
  shows "a \<in> set (news_articles s)"
proof (cases rule: update_news_cases [of e s n])
  case (fetch_failed ex s1)
  then show ?thesis
    using assms news_API_request_frame(1) [of "news_search_terms (conf e)" e s] by simp
next
  case (store_failed as s1 ex s2)
  have "t \<in> set (blocked_articles s1)" and "news_articles s1 = news_articles s"
    using assms(1) store_failed(1) news_API_request_frame(1,2) [of "news_search_terms (conf e)" e s]
    by simp_all
  then show ?thesis
    using store_articles_blocked [of t s1 a as] assms(2,3) store_failed by simp
next
  case (completed as s1 s2)
  have "t \<in> set (blocked_articles s1)" and "news_articles s1 = news_articles s"
    using assms(1) completed(1) news_API_request_frame(1,2) [of "news_search_terms (conf e)" e s]
    by simp_all
  then show ?thesis
    using store_articles_blocked [of t s1 a as] assms(2,3) completed
    by (simp add: settle_news_update_frame)
qed

text \<open>
  C7 (the code differs): \<open>block_article\<close> removes from the list it is walking, so the
  article that follows a removed one is never looked at. A refresh that fetches two
  headlines with one title and different links stores both; blocking that title then
  removes the first and leaves the second in the store.
\<close>

theorem block_article_skips_next_article:
  "news_articles (snd (update_news None example_env initial_state))
     = [\<lparr>title = JStr ''Covid cases rise'', content = ''<a href='' @ quoted ''u1'' @ ''>[Click Here]</a>''\<rparr>,
        \<lparr>title = JStr ''Covid cases rise'', content = ''<a href='' @ quoted ''u2'' @ ''>[Click Here]</a>''\<rparr>]
   \<and> news_articles (block_article ''Covid cases rise'' (snd (update_news None example_env initial_state)))
     = [\<lparr>title = JStr ''Covid cases rise'', content = ''<a href='' @ quoted ''u2'' @ ''>[Click Here]</a>''\<rparr>]"
  using update_initial
  by (simp add: block_article_def Let_def logging_def block_loop.simps)

subsection \<open>The stored articles\<close>

text \<open>
  As stated, with uniqueness by title, the property fails: \<open>update_news\<close> compares the
  whole formatted article with the stored ones, so two headlines with one title and
  different links are both stored by the first refresh.
\<close>

theorem store_two_articles_one_title:
  "reachable any_request (snd (update_news None example_env initial_state))
   \<and> \<not> distinct (map title (news_articles (snd (update_news None example_env initial_state))))"
  using update_initial reachable.refresh [OF reachable.start, of any_request example_env]
  by simp

text \<open>
  C8 (amended): in every state the dashboard can reach, the stored articles are pairwise
  different as whole articles (title and content): no refresh, request or event stores
  an article that is in the store already.
\<close>

theorem store_never_repeats_an_article:
  assumes "reachable allowed s"
  shows "distinct (news_articles s)"
  using assms
proof (induction rule: reachable.induct)
  case start
  show ?case by (simp add: initial_state_def)
next
  case (fetch s location location_type e)
  then show ?case by (simp add: covid_API_request_frame)
next
  case (refresh s e)
  then show ?case by (simp add: update_news_distinct)
next
  case (create s args sched_time e)
  then show ?case by (simp add: create_update_news_articles)
next
  case (remove s n)
  then show ?case by (simp add: remove_update_frame)
next
  case (block s t)
  then show ?case by (simp add: block_article_distinct)
next
  case (covid_event s ev e)
  then show ?case by (simp add: run_event_distinct)
next
  case (news_event s ev e)
  then show ?case by (simp add: run_event_distinct)
qed

theorem store_never_repeats_an_article_witness:
  "reachable any_request (snd (update_news None example_env initial_state))
   \<and> length (news_articles (snd (update_news None example_env initial_state))) = 2
   \<and> distinct (news_articles (snd (update_news None example_env initial_state)))"
  using store_never_repeats_an_article
          [OF reachable.refresh [OF reachable.start, of any_request example_env]]
        reachable.refresh [OF reachable.start, of any_request example_env] update_initial
  by simp

subsection \<open>Names in the two registries\<close>

text \<open>
  As stated the property fails: a request that asks for both data types passes the
  name check once and then calls both create functions, so its name is a key of both
  registries.
\<close>

theorem both_data_types_one_name:
  "reachable any_request (snd (create_update ''07:05'' both_request example_env initial_state))
   \<and> Some ''a'' \<in> dom (covid_updates (snd (create_update ''07:05'' both_request example_env initial_state)))
            \<inter> dom (news_updates (snd (create_update ''07:05'' both_request example_env initial_state)))"
  using both_request_state
    reachable.create [OF reachable.start, of any_request both_request "''07:05''" example_env]
  by (auto simp add: any_request_def)

text \<open>
  C1 (amended): in every state reached from the start by refreshes, by requests that
  create an update for at most one of the two data types, by requests that remove an
  update or block a title, and by pending events run by the schedulers, no name is a key
  of both registries.
\<close>

theorem registries_disjoint:
  assumes "reachable one_data_type s"
  shows "dom (covid_updates s) \<inter> dom (news_updates s) = {}"
  using assms
proof (induction rule: reachable.induct)
  case start
  show ?case by (simp add: initial_state_def)
next
  case (fetch s location location_type e)
  then show ?case by (simp add: covid_API_request_frame)
next
  case (refresh s e)
  then show ?case
    using dom_update_news [of None e s] update_news_covid_updates [of None e s] by auto blast
next
  case (create s args sched_time e)
  then show ?case by (simp add: create_update_disjoint)
next
  case (remove s n)
  then show ?case using dom_remove_update [of n s] by blast
next
  case (block s t)
  then show ?case by (simp add: block_article_frame)
next
  case (covid_event s ev e)
  then show ?case using dom_run_covid_event [of ev e s] by blast
next
  case (news_event s ev e)
  then show ?case using dom_run_news_event [of ev e s] by blast
qed

theorem registries_disjoint_witness:
  "reachable one_data_type (snd (create_update ''07:05'' news_request example_env initial_state))
   \<and> news_updates (snd (create_update ''07:05'' news_request example_env initial_state)) (Some ''a'')
       \<noteq> None
   \<and> dom (covid_updates (snd (create_update ''07:05'' news_request example_env initial_state)))
       \<inter> dom (news_updates (snd (create_update ''07:05'' news_request example_env initial_state)))
       = {}"
proof -
  have ok: "one_data_type news_request"
    by (simp add: one_data_type_def news_request_def truthy_def)
  have r: "reachable one_data_type
             (snd (create_update ''07:05'' news_request example_env initial_state))"
    using reachable.create [of one_data_type initial_state news_request "''07:05''" example_env]
      reachable.start [of one_data_type] ok by simp
  show ?thesis
    using r registries_disjoint [OF r] by (simp add: news_request_state)
qed

subsection \<open>An update whose event has run\<close>








lemma call_action_empty_name:
  "call_action Update_news (Some []) e s = update_news None e s"
  "call_action Run_covid_update (Some []) e s
     = (Some (TypeError ''run_covid_update() takes 1 positional argument''), s)"
  by (simp_all add: call_action_def positional_def)






end
